theory Spec2Isabelle
  imports Main
begin

section \<open>JavaScript values\<close>

text \<open>
  The safety checks of \<^verbatim>\<open>src/handlers/transaction-handlers.ts\<close> take
  \<^verbatim>\<open>params: any[]\<close>: the positional parameters of a JSON-RPC call. They are
  modelled as JSON values. A string is the UTF-8 byte sequence of the JavaScript string.
  A number is an integer or NaN, with \<open>-0\<close> identified with \<open>0\<close> (no operation of the
  checks tells them apart). The integers stand for the integral doubles, and the
  arithmetic on them is exact: it is JavaScript's on integers of magnitude below
  \<open>2 ^ 53\<close>, where a double holds every integer; beyond that JavaScript rounds and this
  development does not, and fractions and infinities are not represented. A statement
  below that depends on a computed number says so by a bound on it.
  An object is the list of its own properties (the first binding of a key is the
  property's value).
\<close>

datatype jsnum = NaN | Num int

datatype jsval =
    JUndefined
  | JNull
  | JBool bool
  | JNum jsnum
  | JStr string
  | JArr "jsval list"
  | JObj "(string \<times> jsval) list"

text \<open>ToBoolean: what \<^verbatim>\<open>!v\<close>, \<^verbatim>\<open>a && b\<close> and \<^verbatim>\<open>a || b\<close> test.\<close>

fun truthy :: "jsval \<Rightarrow> bool" where
  "truthy JUndefined = False"
| "truthy JNull = False"
| "truthy (JBool b) = b"
| "truthy (JNum NaN) = False"
| "truthy (JNum (Num n)) = (n \<noteq> 0)"
| "truthy (JStr s) = (s \<noteq> [])"
| "truthy (JArr xs) = True"
| "truthy (JObj kvs) = True"

text \<open>\<^verbatim>\<open>params[i]\<close>: an index past the end of the array reads \<^verbatim>\<open>undefined\<close>.\<close>

definition idx :: "jsval list \<Rightarrow> nat \<Rightarrow> jsval" where
  "idx params i = (if i < length params then params ! i else JUndefined)"

text \<open>
  \<^verbatim>\<open>v.name\<close> for a value other than \<^verbatim>\<open>undefined\<close> and \<^verbatim>\<open>null\<close>, and for the
  names the checks read (\<^verbatim>\<open>fromBlock\<close>, \<^verbatim>\<open>toBlock\<close>, \<^verbatim>\<open>address\<close>,
  \<^verbatim>\<open>topics\<close>): an own property of an object, and \<^verbatim>\<open>undefined\<close> otherwise (no
  prototype, string or array defines these names).
\<close>

fun getProp :: "jsval \<Rightarrow> string \<Rightarrow> jsval" where
  "getProp (JObj kvs) name = (case map_of kvs name of Some v \<Rightarrow> v | None \<Rightarrow> JUndefined)"
| "getProp v name = JUndefined"

section \<open>Verdicts and configuration\<close>

record SafetyCheckResult =
  safe :: bool
  reason :: "string option"
  suggestion :: "string option"

record SafetyConfig =
  maxTransactionsPerBlock :: int
  maxBlockRange :: int
  maxResponseSizeEstimate :: int
  allowBlocksWithTransactions :: bool

definition DEFAULT_SAFETY_CONFIG :: SafetyConfig where
  "DEFAULT_SAFETY_CONFIG =
     \<lparr> maxTransactionsPerBlock = 10,
       maxBlockRange = 10,
       maxResponseSizeEstimate = 500,
       allowBlocksWithTransactions = False \<rparr>"

text \<open>The object literal \<^verbatim>\<open>{ safe: true }\<close>.\<close>

definition safeResult :: SafetyCheckResult where
  "safeResult = \<lparr> safe = True, reason = None, suggestion = None \<rparr>"

text \<open>The object literal \<^verbatim>\<open>{ safe: false, reason: r, suggestion: s }\<close>.\<close>

definition unsafeResult :: "string \<Rightarrow> string \<Rightarrow> SafetyCheckResult" where
  "unsafeResult r s = \<lparr> safe = False, reason = Some r, suggestion = Some s \<rparr>"

section \<open>Block queries\<close>

definition checkBlockQuery :: "string \<Rightarrow> jsval list \<Rightarrow> SafetyConfig \<Rightarrow> SafetyCheckResult" where
  "checkBlockQuery method params config =
     (if method = ''eth_getBlockByNumber'' \<or> method = ''eth_getBlockByHash'' then
        (let includeTransactions = (idx params 1 = JBool True) in
         if includeTransactions \<and> \<not> allowBlocksWithTransactions config then
           unsafeResult
             ''Requesting blocks with full transactions is disabled to prevent context overflow''
             ''Use eth_getBlockByNumber with false parameter to get block without transactions, or query specific transactions by hash''
         else if includeTransactions then
           unsafeResult
             ''Blocks can contain 100+ transactions, causing session crashes''
             ''Query specific transactions by hash instead, or use a block explorer API''
         else safeResult)
      else safeResult)"

section \<open>Strings and numbers of the JavaScript runtime\<close>

text \<open>
  The byte sequences (UTF-8) of the code points that \<^verbatim>\<open>parseInt\<close> and the
  conversion of a string to a number skip as white space: the WhiteSpace and
  LineTerminator code points of ECMAScript (TAB, LF, VT, FF, CR, SP, U+00A0, U+1680,
  U+2000 to U+200A, U+2028, U+2029, U+202F, U+205F, U+3000, U+FEFF).
\<close>

definition whiteSpace :: "string list" where
  "whiteSpace =
     [[CHR 0x09], [CHR 0x0A], [CHR 0x0B], [CHR 0x0C], [CHR 0x0D], [CHR 0x20],
      [CHR 0xC2, CHR 0xA0], [CHR 0xE1, CHR 0x9A, CHR 0x80],
      [CHR 0xE2, CHR 0x80, CHR 0x80], [CHR 0xE2, CHR 0x80, CHR 0x81],
      [CHR 0xE2, CHR 0x80, CHR 0x82], [CHR 0xE2, CHR 0x80, CHR 0x83],
      [CHR 0xE2, CHR 0x80, CHR 0x84], [CHR 0xE2, CHR 0x80, CHR 0x85],
      [CHR 0xE2, CHR 0x80, CHR 0x86], [CHR 0xE2, CHR 0x80, CHR 0x87],
      [CHR 0xE2, CHR 0x80, CHR 0x88], [CHR 0xE2, CHR 0x80, CHR 0x89],
      [CHR 0xE2, CHR 0x80, CHR 0x8A], [CHR 0xE2, CHR 0x80, CHR 0xA8],
      [CHR 0xE2, CHR 0x80, CHR 0xA9], [CHR 0xE2, CHR 0x80, CHR 0xAF],
      [CHR 0xE2, CHR 0x81, CHR 0x9F], [CHR 0xE3, CHR 0x80, CHR 0x80],
      [CHR 0xEF, CHR 0xBB, CHR 0xBF]]"

definition startsWith :: "string \<Rightarrow> string \<Rightarrow> bool" where
  "startsWith s p = (take (length p) s = p)"

definition endsWith :: "string \<Rightarrow> string \<Rightarrow> bool" where
  "endsWith s p = (length p \<le> length s \<and> drop (length s - length p) s = p)"

text \<open>The number of bytes of the white space code point that starts (ends) a string; 0 if none does.\<close>

definition wsAtStart :: "string \<Rightarrow> nat" where
  "wsAtStart s = (case find (startsWith s) whiteSpace of Some w \<Rightarrow> length w | None \<Rightarrow> 0)"

definition wsAtEnd :: "string \<Rightarrow> nat" where
  "wsAtEnd s = (case find (endsWith s) whiteSpace of Some w \<Rightarrow> length w | None \<Rightarrow> 0)"

function trimStart :: "string \<Rightarrow> string" where
  "trimStart s = (if 0 < wsAtStart s \<and> s \<noteq> [] then trimStart (drop (wsAtStart s) s) else s)"
  by pat_completeness auto
termination
  by (relation "measure length") auto

function trimEnd :: "string \<Rightarrow> string" where
  "trimEnd s = (if 0 < wsAtEnd s \<and> s \<noteq> [] then trimEnd (take (length s - wsAtEnd s) s) else s)"
  by pat_completeness auto
termination
  by (relation "measure length") auto

declare trimStart.simps [simp del] trimEnd.simps [simp del]

text \<open>The value of a digit in a radix up to 16, if the character is one.\<close>

definition digitValue :: "nat \<Rightarrow> char \<Rightarrow> int option" where
  "digitValue radix c =
     (let n = (of_char c :: nat);
          d = (if 48 \<le> n \<and> n \<le> 57 then Some (n - 48)
               else if 97 \<le> n \<and> n \<le> 102 then Some (n - 87)
               else if 65 \<le> n \<and> n \<le> 70 then Some (n - 55)
               else None)
      in case d of
           None \<Rightarrow> None
         | Some v \<Rightarrow> if v < radix then Some (int v) else None)"

definition isDigit :: "nat \<Rightarrow> char \<Rightarrow> bool" where
  "isDigit radix c = (digitValue radix c \<noteq> None)"

text \<open>The integer that a run of digits denotes, read left to right.\<close>

definition digitsValue :: "nat \<Rightarrow> string \<Rightarrow> int" where
  "digitsValue radix z = foldl (\<lambda>v c. int radix * v + the (digitValue radix c)) 0 z"

text \<open>
  \<^verbatim>\<open>parseInt(s, 16)\<close>: leading white space is dropped, then a sign, then a
  \<^verbatim>\<open>0x\<close> or \<^verbatim>\<open>0X\<close> prefix; the longest run of hexadecimal digits that follows is
  the number, and the result is NaN when that run is empty. It never throws. The result
  here is the integer that the digits denote; \<^verbatim>\<open>parseInt\<close> returns the nearest
  double, which is that integer when its magnitude is below \<open>2 ^ 53\<close>.
\<close>

definition parseInt16 :: "string \<Rightarrow> jsnum" where
  "parseInt16 s =
     (let s1 = trimStart s;
          negative = startsWith s1 ''-'';
          s2 = (if startsWith s1 ''+'' \<or> startsWith s1 ''-'' then drop 1 s1 else s1);
          s3 = (if startsWith s2 ''0x'' \<or> startsWith s2 ''0X'' then drop 2 s2 else s2);
          z = takeWhile (isDigit 16) s3
      in if z = [] then NaN
         else Num ((if negative then - 1 else 1) * digitsValue 16 z))"

text \<open>
  The decimal digits of a natural number, and of an integer: what Number::toString prints
  for an integer of magnitude below \<open>2 ^ 53\<close> (from \<open>10 ^ 21\<close> on it prints an
  exponent form, which is not modelled).
\<close>

fun showNat :: "nat \<Rightarrow> string" where
  "showNat n =
     (if n < 10 then [''0123456789'' ! n]
      else showNat (n div 10) @ [''0123456789'' ! (n mod 10)])"

declare showNat.simps [simp del]

definition showInt :: "int \<Rightarrow> string" where
  "showInt i = (if i < 0 then ''-'' @ showNat (nat (- i)) else showNat (nat i))"

definition numToString :: "jsnum \<Rightarrow> string" where
  "numToString n = (case n of NaN \<Rightarrow> ''NaN'' | Num i \<Rightarrow> showInt i)"

text \<open>
  StringToNumber, for the integer literals: white space is trimmed at both ends; the
  empty string is 0; \<^verbatim>\<open>0x\<close>, \<^verbatim>\<open>0o\<close> and \<^verbatim>\<open>0b\<close> introduce an unsigned
  hexadecimal, octal or binary literal; a decimal literal may carry a sign. Anything else
  is NaN. A literal with a decimal point, an exponent or \<^verbatim>\<open>Infinity\<close> may denote
  a number that \<^typ>\<open>jsnum\<close> does not represent; such a literal is outside the model
  (and mapped to NaN). The checks convert a string this way only when a block bound is an
  array; a bound that is itself a string goes through \<^verbatim>\<open>parseInt\<close>.
\<close>

definition radixLiteral :: "nat \<Rightarrow> string \<Rightarrow> jsnum" where
  "radixLiteral radix z =
     (if z \<noteq> [] \<and> list_all (isDigit radix) z then Num (digitsValue radix z) else NaN)"

definition stringToNumber :: "string \<Rightarrow> jsnum" where
  "stringToNumber s =
     (let t = trimEnd (trimStart s) in
      if t = [] then Num 0
      else if startsWith t ''0x'' \<or> startsWith t ''0X'' then radixLiteral 16 (drop 2 t)
      else if startsWith t ''0o'' \<or> startsWith t ''0O'' then radixLiteral 8 (drop 2 t)
      else if startsWith t ''0b'' \<or> startsWith t ''0B'' then radixLiteral 2 (drop 2 t)
      else if startsWith t ''-'' then
        (case radixLiteral 10 (drop 1 t) of NaN \<Rightarrow> NaN | Num i \<Rightarrow> Num (- i))
      else if startsWith t ''+'' then radixLiteral 10 (drop 1 t)
      else radixLiteral 10 t)"

text \<open>
  The exception that a conversion can throw on a JSON value: an object whose own
  \<^verbatim>\<open>toString\<close> property (a JSON value, so not callable) hides
  \<^verbatim>\<open>Object.prototype.toString\<close> has no primitive value.
\<close>

datatype jserror = TypeError

text \<open>
  ToString on a JSON value. An array is the join of its elements with a comma, where
  \<^verbatim>\<open>undefined\<close> and \<^verbatim>\<open>null\<close> elements are empty.
\<close>

fun toStringJS :: "jsval \<Rightarrow> jserror + string"
  and joinElements :: "jsval list \<Rightarrow> jserror + string"
  and elementString :: "jsval \<Rightarrow> jserror + string" where
  "toStringJS JUndefined = Inr ''undefined''"
| "toStringJS JNull = Inr ''null''"
| "toStringJS (JBool b) = Inr (if b then ''true'' else ''false'')"
| "toStringJS (JNum n) = Inr (numToString n)"
| "toStringJS (JStr s) = Inr s"
| "toStringJS (JArr xs) = joinElements xs"
| "toStringJS (JObj kvs) =
     (if map_of kvs ''toString'' = None then Inr ''[object Object]'' else Inl TypeError)"
| "joinElements [] = Inr []"
| "joinElements [x] = elementString x"
| "joinElements (x # y # r) =
     (case elementString x of
        Inl e \<Rightarrow> Inl e
      | Inr s \<Rightarrow> (case joinElements (y # r) of
                   Inl e \<Rightarrow> Inl e
                 | Inr t \<Rightarrow> Inr (s @ '','' @ t)))"
| "elementString JUndefined = Inr []"
| "elementString JNull = Inr []"
| "elementString (JBool b) = toStringJS (JBool b)"
| "elementString (JNum n) = toStringJS (JNum n)"
| "elementString (JStr s) = toStringJS (JStr s)"
| "elementString (JArr xs) = toStringJS (JArr xs)"
| "elementString (JObj kvs) = toStringJS (JObj kvs)"

text \<open>ToNumber on a JSON value: what the operands of \<^verbatim>\<open>-\<close> go through.\<close>

definition toNumber :: "jsval \<Rightarrow> jserror + jsnum" where
  "toNumber v =
     (case v of
        JUndefined \<Rightarrow> Inr NaN
      | JNull \<Rightarrow> Inr (Num 0)
      | JBool b \<Rightarrow> Inr (Num (if b then 1 else 0))
      | JNum n \<Rightarrow> Inr n
      | JStr s \<Rightarrow> Inr (stringToNumber s)
      | JArr xs \<Rightarrow> (case joinElements xs of Inl e \<Rightarrow> Inl e | Inr s \<Rightarrow> Inr (stringToNumber s))
      | JObj kvs \<Rightarrow> (case toStringJS (JObj kvs) of Inl e \<Rightarrow> Inl e | Inr s \<Rightarrow> Inr (stringToNumber s)))"

text \<open>
  \<^verbatim>\<open>a - b\<close> and \<^verbatim>\<open>a > b\<close> on numbers: NaN makes the difference NaN and the
  comparison false. The difference is exact; JavaScript's is the nearest double, which is
  the same when its magnitude is below \<open>2 ^ 53\<close>.
\<close>

fun numSub :: "jsnum \<Rightarrow> jsnum \<Rightarrow> jsnum" where
  "numSub (Num a) (Num b) = Num (a - b)"
| "numSub a b = NaN"

fun numGreater :: "jsnum \<Rightarrow> int \<Rightarrow> bool" where
  "numGreater (Num a) b = (b < a)"
| "numGreater NaN b = False"

section \<open>Log queries\<close>

text \<open>
  \<^verbatim>\<open>typeof b === 'string' ? parseInt(b, 16) : b\<close>, for \<^verbatim>\<open>from\<close> and \<^verbatim>\<open>to\<close>.
\<close>

definition blockOperand :: "jsval \<Rightarrow> jsval" where
  "blockOperand b = (case b of JStr s \<Rightarrow> JNum (parseInt16 s) | _ \<Rightarrow> b)"

text \<open>
  The body of the \<^verbatim>\<open>try\<close> up to \<^verbatim>\<open>const range = to - from\<close>. The subtraction
  converts its left operand first; a conversion that throws leaves the block.
\<close>

definition blockRange :: "jsval \<Rightarrow> jsval \<Rightarrow> jserror + jsnum" where
  "blockRange fromBlock toBlock =
     (let from = blockOperand fromBlock;
          to = blockOperand toBlock
      in case toNumber to of
           Inl e \<Rightarrow> Inl e
         | Inr t \<Rightarrow> (case toNumber from of
                      Inl e \<Rightarrow> Inl e
                    | Inr f \<Rightarrow> Inr (numSub t f)))"

text \<open>
  The block \<^verbatim>\<open>// Check block range\<close>: the verdict it returns, or \<open>None\<close> when
  control falls through to the check of the filters.
\<close>

definition checkBlockRange :: "jsval \<Rightarrow> jsval \<Rightarrow> SafetyConfig \<Rightarrow> SafetyCheckResult option" where
  "checkBlockRange fromBlock toBlock config =
     (if truthy fromBlock \<and> truthy toBlock \<and> toBlock \<noteq> JStr ''latest'' then
        (case blockRange fromBlock toBlock of
           Inr range' \<Rightarrow>
             if numGreater range' (maxBlockRange config) then
               Some (unsafeResult
                 (''Block range '' @ numToString range' @ '' exceeds maximum ''
                    @ showInt (maxBlockRange config))
                 ''Reduce the block range or use pagination'')
             else None
         | Inl e \<Rightarrow>
             Some (unsafeResult
               ''Unable to validate block range safety''
               ''Specify explicit numeric block ranges''))
      else None)"

definition checkLogQuery :: "jsval list \<Rightarrow> SafetyConfig \<Rightarrow> SafetyCheckResult" where
  "checkLogQuery params config =
     (if \<not> truthy (idx params 0) then safeResult
      else
        (let filter = idx params 0;
             fromBlock = getProp filter ''fromBlock'';
             toBlock = (if truthy (getProp filter ''toBlock'') then getProp filter ''toBlock''
                        else JStr ''latest'')
         in case checkBlockRange fromBlock toBlock config of
              Some verdict \<Rightarrow> verdict
            | None \<Rightarrow>
                if \<not> truthy (getProp filter ''address'') \<and> \<not> truthy (getProp filter ''topics'') then
                  unsafeResult
                    ''Unrestricted log queries can return massive amounts of data''
                    ''Add address or topic filters to limit results''
                else safeResult))"

section \<open>RPC calls\<close>

definition DANGEROUS_METHODS :: "string set" where
  "DANGEROUS_METHODS =
     {''eth_getBlockByNumber'',
      ''eth_getBlockByHash'',
      ''eth_getLogs'',
      ''eth_getTransactionReceipt'',
      ''debug_traceTransaction'',
      ''trace_block'',
      ''trace_transaction''}"

definition isDangerousMethod :: "string \<Rightarrow> bool" where
  "isDangerousMethod method = (method \<in> DANGEROUS_METHODS)"

definition validateRPCCall ::
  "string \<Rightarrow> string \<Rightarrow> jsval list \<Rightarrow> SafetyConfig \<Rightarrow> SafetyCheckResult" where
  "validateRPCCall blockchain method params config =
     (if isDangerousMethod method then
        (if startsWith method ''eth_getBlock'' then checkBlockQuery method params config
         else if method = ''eth_getLogs'' then checkLogQuery params config
         else unsafeResult
           (''Method '' @ method @ '' can return extremely large responses'')
           ''Use safer alternatives or fetch data from a block explorer API'')
      else safeResult)"

section \<open>Natural-language queries\<close>

text \<open>
  The regular expressions of the source are built from two pieces only: a run of
  literal characters (letters and spaces) and \<^verbatim>\<open>.*\<close>. All carry the flag
  \<^verbatim>\<open>i\<close> and no other.
\<close>

datatype regexItem = Lit string | AnyStar

type_synonym regex = "regexItem list"

text \<open>
  Canonicalize, of a case-insensitive match, on the code of a character: a lower-case
  ASCII letter is replaced by its upper-case form. A character outside ASCII never
  canonicalizes into ASCII, so the bytes of such a character are compared as they are.
\<close>

definition canonicalize :: "char \<Rightarrow> nat" where
  "canonicalize c =
     (let n = (of_char c :: nat) in if 97 \<le> n \<and> n \<le> 122 then n - 32 else n)"

text \<open>A literal run matched at the start of the text: the rest of the text, if it matches.\<close>

fun matchLit :: "string \<Rightarrow> string \<Rightarrow> string option" where
  "matchLit [] t = Some t"
| "matchLit (p # ps) [] = None"
| "matchLit (p # ps) (c # t) =
     (if canonicalize p = canonicalize c then matchLit ps t else None)"

text \<open>
  \<^verbatim>\<open>.\<close> matches any character but a line terminator: LF, CR, U+2028 and U+2029.
\<close>

definition lineTerminatorAt :: "string \<Rightarrow> bool" where
  "lineTerminatorAt t =
     (startsWith t [CHR 0x0A] \<or> startsWith t [CHR 0x0D]
      \<or> startsWith t [CHR 0xE2, CHR 0x80, CHR 0xA8]
      \<or> startsWith t [CHR 0xE2, CHR 0x80, CHR 0xA9])"

text \<open>A match of the whole pattern that starts at the start of the text.\<close>

fun matchAt :: "regex \<Rightarrow> string \<Rightarrow> bool" where
  "matchAt [] t = True"
| "matchAt (Lit p # r) t =
     (case matchLit p t of None \<Rightarrow> False | Some t' \<Rightarrow> matchAt r t')"
| "matchAt (AnyStar # r) [] = matchAt r []"
| "matchAt (AnyStar # r) (c # t) =
     (matchAt r (c # t) \<or> (\<not> lineTerminatorAt (c # t) \<and> matchAt (AnyStar # r) t))"

text \<open>\<^verbatim>\<open>pattern.test(query)\<close>: a match that starts at some index of the text.\<close>

fun test :: "regex \<Rightarrow> string \<Rightarrow> bool" where
  "test r [] = matchAt r []"
| "test r (c # t) = (matchAt r (c # t) \<or> test r t)"

definition TRANSACTION_HISTORY_PATTERNS :: "regex list" where
  "TRANSACTION_HISTORY_PATTERNS =
     [[Lit ''get'', AnyStar, Lit ''transaction'', AnyStar, Lit ''for'', AnyStar, Lit ''address''],
      [Lit ''transaction'', AnyStar, Lit ''history''],
      [Lit ''recent'', AnyStar, Lit ''transactions''],
      [Lit ''last'', AnyStar, Lit ''transaction''],
      [Lit ''latest'', AnyStar, Lit ''transaction'', AnyStar, Lit ''on'', AnyStar, Lit ''address''],
      [Lit ''address'', AnyStar, Lit ''transactions'']]"

definition isTransactionHistoryQuery :: "string \<Rightarrow> bool" where
  "isTransactionHistoryQuery query = list_ex (\<lambda>pattern. test pattern query) TRANSACTION_HISTORY_PATTERNS"

definition dangerousPatterns :: "regex list" where
  "dangerousPatterns =
     [[Lit ''get all transactions''],
      [Lit ''list all''],
      [Lit ''fetch all''],
      [Lit ''every transaction''],
      [Lit ''all'', AnyStar, Lit ''logs'']]"

text \<open>
  The loop \<^verbatim>\<open>for (const pattern of dangerousPatterns)\<close> and the
  \<^verbatim>\<open>return { safe: true }\<close> that follows it.
\<close>

fun checkPatterns :: "regex list \<Rightarrow> string \<Rightarrow> SafetyCheckResult" where
  "checkPatterns [] query = safeResult"
| "checkPatterns (pattern # patterns) query =
     (if test pattern query then
        unsafeResult
          ''Query requests potentially unbounded data''
          ''Add specific limits, filters, or time ranges to your query''
      else checkPatterns patterns query)"

text \<open>The bullet of the suggestion's list, U+2022, in UTF-8.\<close>

definition bullet :: string where
  "bullet = [CHR 0xE2, CHR 0x80, CHR 0xA2]"

definition validateNaturalLanguageQuery :: "string \<Rightarrow> SafetyConfig \<Rightarrow> SafetyCheckResult" where
  "validateNaturalLanguageQuery query config =
     (if isTransactionHistoryQuery query then
        unsafeResult
          ''Transaction history queries require fetching multiple blocks with full transaction data, which causes context overflow''
          (''Instead:'' @ [CHR 0x0A]
           @ ''  '' @ bullet @ '' Query a specific transaction by hash if you know it'' @ [CHR 0x0A]
           @ ''  '' @ bullet @ '' Use a block explorer API (Etherscan, etc.) for transaction history'' @ [CHR 0x0A]
           @ ''  '' @ bullet @ '' Ask for current balance or state instead of history'')
      else checkPatterns dangerousPatterns query)"

section \<open>Notions of the specification\<close>

text \<open>
  The invariant that the specification states for a verdict: an unsafe verdict carries a
  reason and a suggestion, both non-empty, and a safe verdict carries neither.
\<close>

definition verdictInvariant :: "SafetyCheckResult \<Rightarrow> bool" where
  "verdictInvariant v =
     ((safe v = False \<longrightarrow>
         (\<exists>r s. reason v = Some r \<and> r \<noteq> [] \<and> suggestion v = Some s \<and> s \<noteq> []))
      \<and> (safe v = True \<longrightarrow> reason v = None \<and> suggestion v = None))"

text \<open>
  The numbers on which the arithmetic of this development is that of JavaScript: NaN, and
  the integers of magnitude below \<open>2 ^ 53\<close>, each of which is a double, is printed by
  its decimal digits, and is what \<^verbatim>\<open>parseInt\<close> returns for a digit string that
  denotes it. Beyond that bound JavaScript rounds, and \<^typ>\<open>jsnum\<close> does not.
\<close>

definition exactNumber :: "jsnum \<Rightarrow> bool" where
  "exactNumber n = (case n of NaN \<Rightarrow> True | Num i \<Rightarrow> \<bar>i\<bar> < 2 ^ 53)"

text \<open>
  A block bound that the range check reads as such a number: a number, or a string,
  which goes through \<^verbatim>\<open>parseInt\<close>.
\<close>

definition exactBound :: "jsval \<Rightarrow> bool" where
  "exactBound b =
     (case b of JNum n \<Rightarrow> exactNumber n | JStr s \<Rightarrow> exactNumber (parseInt16 s) | _ \<Rightarrow> False)"

text \<open>
  The hexadecimal digits and the value of each, as a table; and the integer that a string
  of hexadecimal digits denotes, in positional notation: the last digit counts units, and
  what stands before it counts sixteen times what it denotes.
\<close>

definition hexDigits :: string where
  "hexDigits = ''0123456789abcdefABCDEF''"

definition hexDigit :: "char \<Rightarrow> int" where
  "hexDigit c =
     (case map_of
        (zip hexDigits [0, 1, 2, 3, 4, 5, 6, 7, 8, 9, 10, 11, 12, 13, 14, 15, 10, 11, 12, 13, 14, 15]) c
      of Some v \<Rightarrow> v | None \<Rightarrow> 0)"

function hexValue :: "string \<Rightarrow> int" where
  "hexValue z = (if z = [] then 0 else 16 * hexValue (butlast z) + hexDigit (last z))"
  by pat_completeness auto
termination
  by (relation "measure length") auto

declare hexValue.simps [simp del]

section \<open>Properties of the block query check\<close>

text \<open>
  C2. For every configuration, also one that sets \<^verbatim>\<open>allowBlocksWithTransactions\<close>, and
  every parameter list whose element at index 1 (the include-transactions flag, the
  second parameter) is the boolean \<^verbatim>\<open>true\<close>, \<^verbatim>\<open>checkBlockQuery\<close> on
  \<^verbatim>\<open>eth_getBlockByNumber\<close> or \<^verbatim>\<open>eth_getBlockByHash\<close> returns an unsafe verdict.
\<close>

theorem checkBlockQuery_true_flag_unsafe:
  assumes "method = ''eth_getBlockByNumber'' \<or> method = ''eth_getBlockByHash''"
    and "idx params 1 = JBool True"
  shows "safe (checkBlockQuery method params config) = False"
  using assms by (auto simp: checkBlockQuery_def unsafeResult_def Let_def)

theorem checkBlockQuery_true_flag_unsafe_witness:
  "safe (checkBlockQuery ''eth_getBlockByNumber'' [JStr ''latest'', JBool True]
           (DEFAULT_SAFETY_CONFIG \<lparr> allowBlocksWithTransactions := True \<rparr>)) = False
   \<and> safe (checkBlockQuery ''eth_getBlockByHash'' [JStr ''0xabc'', JBool True]
           DEFAULT_SAFETY_CONFIG) = False
   \<and> safe (checkBlockQuery ''eth_getBlockByNumber'' [JStr ''latest'', JBool True]
           DEFAULT_SAFETY_CONFIG) = False"
proof -
  have 1: "idx [JStr ''latest'', JBool True] 1 = JBool True"
    by (simp add: idx_def)
  have 2: "idx [JStr ''0xabc'', JBool True] 1 = JBool True"
    by (simp add: idx_def)
  show ?thesis
    using checkBlockQuery_true_flag_unsafe [OF disjI1 [OF refl] 1]
      checkBlockQuery_true_flag_unsafe [OF disjI2 [OF refl] 2]
    by blast
qed

text \<open>
  C10. Only the boolean \<^verbatim>\<open>true\<close> at index 1 requests full transactions: for any other
  value there (\<^verbatim>\<open>false\<close>, nothing, the string \<^verbatim>\<open>'true'\<close>, the number 1), and for
  any method other than \<^verbatim>\<open>eth_getBlockByNumber\<close> and \<^verbatim>\<open>eth_getBlockByHash\<close>,
  \<^verbatim>\<open>checkBlockQuery\<close> returns \<^verbatim>\<open>{ safe: true }\<close>, for every configuration.
\<close>

theorem checkBlockQuery_other_safe:
  assumes "idx params 1 \<noteq> JBool True
           \<or> (method \<noteq> ''eth_getBlockByNumber'' \<and> method \<noteq> ''eth_getBlockByHash'')"
  shows "checkBlockQuery method params config = \<lparr> safe = True, reason = None, suggestion = None \<rparr>"
  using assms by (auto simp: checkBlockQuery_def safeResult_def Let_def)

theorem checkBlockQuery_other_safe_witness:
  "(let c = DEFAULT_SAFETY_CONFIG; ok = \<lparr> safe = True, reason = None, suggestion = None \<rparr> in
      checkBlockQuery ''eth_getBlockByNumber'' [JStr ''latest'', JBool False] c = ok
    \<and> checkBlockQuery ''eth_getBlockByNumber'' [JStr ''latest''] c = ok
    \<and> checkBlockQuery ''eth_getBlockByNumber'' [JStr ''latest'', JStr ''true''] c = ok
    \<and> checkBlockQuery ''eth_getBlockByHash'' [JStr ''0xabc'', JNum (Num 1)] c = ok
    \<and> checkBlockQuery ''eth_getLogs'' [JStr ''latest'', JBool True] c = ok)"
proof -
  have 1: "idx [JStr ''latest'', JBool False] 1 \<noteq> JBool True"
    and 2: "idx [JStr ''latest''] 1 \<noteq> JBool True"
    and 3: "idx [JStr ''latest'', JStr ''true''] 1 \<noteq> JBool True"
    and 4: "idx [JStr ''0xabc'', JNum (Num 1)] 1 \<noteq> JBool True"
    by (simp_all add: idx_def)
  have 5: "''eth_getLogs'' \<noteq> ''eth_getBlockByNumber'' \<and> ''eth_getLogs'' \<noteq> ''eth_getBlockByHash''"
    by simp
  show ?thesis
    unfolding Let_def
    using checkBlockQuery_other_safe [OF disjI1 [OF 1]]
      checkBlockQuery_other_safe [OF disjI1 [OF 2]]
      checkBlockQuery_other_safe [OF disjI1 [OF 3]]
      checkBlockQuery_other_safe [OF disjI1 [OF 4]]
      checkBlockQuery_other_safe [OF disjI2 [OF 5]]
    by blast
qed


section \<open>Properties of the dispatch on the method\<close>

text \<open>
  C5. For every method name that is not in the set of dangerous methods,
  \<^verbatim>\<open>validateRPCCall\<close> returns \<^verbatim>\<open>{ safe: true }\<close>, for every blockchain, parameter
  list and configuration; the verdict is the same for any other blockchain, parameter list
  and configuration, so the parameters cannot change it.
\<close>

theorem validateRPCCall_not_dangerous:
  assumes "\<not> isDangerousMethod method"
  shows "validateRPCCall blockchain method params config
           = \<lparr> safe = True, reason = None, suggestion = None \<rparr>
         \<and> validateRPCCall blockchain method params config
           = validateRPCCall blockchain' method params' config'"
  using assms by (simp add: validateRPCCall_def safeResult_def)

theorem validateRPCCall_not_dangerous_witness:
  "\<not> isDangerousMethod ''eth_blockNumber''
   \<and> validateRPCCall ''ethereum'' ''eth_blockNumber'' [JStr ''latest'', JBool True] DEFAULT_SAFETY_CONFIG
       = \<lparr> safe = True, reason = None, suggestion = None \<rparr>
   \<and> validateRPCCall ''ethereum'' ''eth_blockNumber'' [JStr ''latest'', JBool True] DEFAULT_SAFETY_CONFIG
       = validateRPCCall ''solana'' ''eth_blockNumber'' [] (DEFAULT_SAFETY_CONFIG \<lparr> maxBlockRange := 0 \<rparr>)"
proof -
  have h: "\<not> isDangerousMethod ''eth_blockNumber''"
    by (simp add: isDangerousMethod_def DANGEROUS_METHODS_def)
  show ?thesis
    using h validateRPCCall_not_dangerous [OF h] by blast
qed

lemma other_dangerous_methods:
  assumes "isDangerousMethod method"
    and "method \<noteq> ''eth_getBlockByNumber''" and "method \<noteq> ''eth_getBlockByHash''"
    and "method \<noteq> ''eth_getLogs''"
  shows "method = ''eth_getTransactionReceipt'' \<or> method = ''debug_traceTransaction''
         \<or> method = ''trace_block'' \<or> method = ''trace_transaction''"
  using assms by (auto simp: isDangerousMethod_def DANGEROUS_METHODS_def)

text \<open>
  C6. For every dangerous method other than \<^verbatim>\<open>eth_getBlockByNumber\<close>,
  \<^verbatim>\<open>eth_getBlockByHash\<close> and \<^verbatim>\<open>eth_getLogs\<close>, \<^verbatim>\<open>validateRPCCall\<close> returns
  an unsafe verdict with the generic reason (which names the method) and the generic
  suggestion, whatever the parameter list and the configuration are.
\<close>

theorem validateRPCCall_other_dangerous:
  assumes "isDangerousMethod method"
    and "method \<noteq> ''eth_getBlockByNumber''" and "method \<noteq> ''eth_getBlockByHash''"
    and "method \<noteq> ''eth_getLogs''"
  shows "validateRPCCall blockchain method params config
           = \<lparr> safe = False,
               reason = Some (''Method '' @ method @ '' can return extremely large responses''),
               suggestion = Some ''Use safer alternatives or fetch data from a block explorer API'' \<rparr>"
proof -
  have "\<not> startsWith method ''eth_getBlock''"
    using other_dangerous_methods [OF assms] by (auto simp: startsWith_def)
  then show ?thesis
    using assms by (simp add: validateRPCCall_def unsafeResult_def)
qed

theorem validateRPCCall_other_dangerous_witness:
  "validateRPCCall ''ethereum'' ''debug_traceTransaction'' [JStr ''0xabc''] DEFAULT_SAFETY_CONFIG
     = \<lparr> safe = False,
         reason = Some ''Method debug_traceTransaction can return extremely large responses'',
         suggestion = Some ''Use safer alternatives or fetch data from a block explorer API'' \<rparr>
   \<and> validateRPCCall ''ethereum'' ''eth_getTransactionReceipt'' []
        (DEFAULT_SAFETY_CONFIG \<lparr> allowBlocksWithTransactions := True \<rparr>)
     = \<lparr> safe = False,
         reason = Some ''Method eth_getTransactionReceipt can return extremely large responses'',
         suggestion = Some ''Use safer alternatives or fetch data from a block explorer API'' \<rparr>"
proof -
  have 1: "isDangerousMethod ''debug_traceTransaction''"
    and 2: "isDangerousMethod ''eth_getTransactionReceipt''"
    by (simp_all add: isDangerousMethod_def DANGEROUS_METHODS_def)
  have "validateRPCCall ''ethereum'' ''debug_traceTransaction'' [JStr ''0xabc''] DEFAULT_SAFETY_CONFIG
     = \<lparr> safe = False,
         reason = Some (''Method '' @ ''debug_traceTransaction'' @ '' can return extremely large responses''),
         suggestion = Some ''Use safer alternatives or fetch data from a block explorer API'' \<rparr>"
    by (rule validateRPCCall_other_dangerous [OF 1]) simp_all
  moreover have "validateRPCCall ''ethereum'' ''eth_getTransactionReceipt'' []
        (DEFAULT_SAFETY_CONFIG \<lparr> allowBlocksWithTransactions := True \<rparr>)
     = \<lparr> safe = False,
         reason = Some (''Method '' @ ''eth_getTransactionReceipt'' @ '' can return extremely large responses''),
         suggestion = Some ''Use safer alternatives or fetch data from a block explorer API'' \<rparr>"
    by (rule validateRPCCall_other_dangerous [OF 2]) simp_all
  ultimately show ?thesis by simp
qed

section \<open>Properties of the natural-language check\<close>

lemma checkPatterns_cases:
  "checkPatterns patterns query =
     (if list_ex (\<lambda>pattern. test pattern query) patterns then
        unsafeResult
          ''Query requests potentially unbounded data''
          ''Add specific limits, filters, or time ranges to your query''
      else safeResult)"
  by (induction patterns) simp_all

text \<open>
  C8. \<^verbatim>\<open>validateNaturalLanguageQuery\<close> looks at the patterns in a fixed order. A query
  that some transaction-history pattern matches is unsafe with the history reason, also
  when a pattern of unbounded scope matches it too. Otherwise, a query that some pattern
  of unbounded scope matches (\<^verbatim>\<open>get all transactions\<close>, \<^verbatim>\<open>list all\<close>,
  \<^verbatim>\<open>fetch all\<close>, \<^verbatim>\<open>every transaction\<close>, \<^verbatim>\<open>all.*logs\<close>) is unsafe with the
  unbounded-data reason. A query that no pattern matches gets \<^verbatim>\<open>{ safe: true }\<close>.
\<close>

theorem validateNaturalLanguageQuery_order:
  "(let v = validateNaturalLanguageQuery query config;
        history = (\<exists>pattern \<in> set TRANSACTION_HISTORY_PATTERNS. test pattern query);
        unbounded = (\<exists>pattern \<in> set dangerousPatterns. test pattern query)
    in (history \<longrightarrow>
          safe v = False
          \<and> reason v = Some ''Transaction history queries require fetching multiple blocks with full transaction data, which causes context overflow'')
     \<and> (\<not> history \<and> unbounded \<longrightarrow>
          v = \<lparr> safe = False,
                reason = Some ''Query requests potentially unbounded data'',
                suggestion = Some ''Add specific limits, filters, or time ranges to your query'' \<rparr>)
     \<and> (\<not> history \<and> \<not> unbounded \<longrightarrow>
          v = \<lparr> safe = True, reason = None, suggestion = None \<rparr>))"
  by (simp add: validateNaturalLanguageQuery_def isTransactionHistoryQuery_def
      checkPatterns_cases list_ex_iff unsafeResult_def safeResult_def Let_def)

lemma history_and_unbounded_example:
  "\<exists>pattern \<in> set TRANSACTION_HISTORY_PATTERNS. test pattern ''list all transaction history''"
  "\<exists>pattern \<in> set dangerousPatterns. test pattern ''list all transaction history''"
  by (simp_all add: TRANSACTION_HISTORY_PATTERNS_def dangerousPatterns_def canonicalize_def
      lineTerminatorAt_def startsWith_def)

lemma unbounded_example:
  "\<not> (\<exists>pattern \<in> set TRANSACTION_HISTORY_PATTERNS. test pattern ''list all logs for this contract'')"
  "\<exists>pattern \<in> set dangerousPatterns. test pattern ''list all logs for this contract''"
  by (simp_all add: TRANSACTION_HISTORY_PATTERNS_def dangerousPatterns_def canonicalize_def
      lineTerminatorAt_def startsWith_def)

lemma no_match_example:
  "\<not> (\<exists>pattern \<in> set TRANSACTION_HISTORY_PATTERNS. test pattern ''get the latest height for ethereum'')"
  "\<not> (\<exists>pattern \<in> set dangerousPatterns. test pattern ''get the latest height for ethereum'')"
  by (simp_all add: TRANSACTION_HISTORY_PATTERNS_def dangerousPatterns_def canonicalize_def
      lineTerminatorAt_def startsWith_def)

theorem validateNaturalLanguageQuery_order_witness:
  "safe (validateNaturalLanguageQuery ''list all transaction history'' DEFAULT_SAFETY_CONFIG) = False
   \<and> reason (validateNaturalLanguageQuery ''list all transaction history'' DEFAULT_SAFETY_CONFIG)
       = Some ''Transaction history queries require fetching multiple blocks with full transaction data, which causes context overflow''
   \<and> validateNaturalLanguageQuery ''list all logs for this contract'' DEFAULT_SAFETY_CONFIG
       = \<lparr> safe = False,
           reason = Some ''Query requests potentially unbounded data'',
           suggestion = Some ''Add specific limits, filters, or time ranges to your query'' \<rparr>
   \<and> validateNaturalLanguageQuery ''get the latest height for ethereum'' DEFAULT_SAFETY_CONFIG
       = \<lparr> safe = True, reason = None, suggestion = None \<rparr>"
  using validateNaturalLanguageQuery_order [of "''list all transaction history''" DEFAULT_SAFETY_CONFIG]
    validateNaturalLanguageQuery_order [of "''list all logs for this contract''" DEFAULT_SAFETY_CONFIG]
    validateNaturalLanguageQuery_order [of "''get the latest height for ethereum''" DEFAULT_SAFETY_CONFIG]
    history_and_unbounded_example unbounded_example no_match_example
  unfolding Let_def by blast

lemma specification_query_example:
  "safe (validateNaturalLanguageQuery ''What was the last transaction on vitalik.eth?''
           DEFAULT_SAFETY_CONFIG) = False
   \<and> reason (validateNaturalLanguageQuery ''What was the last transaction on vitalik.eth?''
           DEFAULT_SAFETY_CONFIG)
       = Some ''Transaction history queries require fetching multiple blocks with full transaction data, which causes context overflow''"
  by (simp add: validateNaturalLanguageQuery_def isTransactionHistoryQuery_def
      TRANSACTION_HISTORY_PATTERNS_def canonicalize_def lineTerminatorAt_def startsWith_def
      unsafeResult_def)

section \<open>Properties of the log query check\<close>

lemma toNumber_blockOperand_JStr: "toNumber (blockOperand (JStr s)) = Inr (parseInt16 s)"
  by (simp add: blockOperand_def toNumber_def)

lemma toNumber_blockOperand_JNum: "toNumber (blockOperand (JNum n)) = Inr n"
  by (simp add: blockOperand_def toNumber_def)

lemma numSub_NaN: "a = NaN \<or> b = NaN \<Longrightarrow> numSub a b = NaN"
  by (cases a; cases b) auto

lemma blockRange_strings:
  "blockRange (JStr s) (JStr t) = Inr (numSub (parseInt16 t) (parseInt16 s))"
  by (simp add: blockRange_def toNumber_blockOperand_JStr)

lemma blockRange_numbers:
  "blockRange (JNum (Num a)) (JNum (Num b)) = Inr (Num (b - a))"
  by (simp add: blockRange_def toNumber_blockOperand_JNum)

lemma parseInt16_xyz: "parseInt16 ''xyz'' = NaN"
  by (simp add: parseInt16_def trimStart.simps wsAtStart_def whiteSpace_def startsWith_def
      isDigit_def digitValue_def Let_def)

text \<open>
  The \<^verbatim>\<open>catch\<close> of the range check is taken when the subtraction throws, as it
  does on a bound that is an object with a \<^verbatim>\<open>toString\<close> property of its own.
\<close>

lemma checkLogQuery_conversion_throws:
  "checkLogQuery
     [JObj [(''fromBlock'', JObj [(''toString'', JNull)]), (''toBlock'', JStr ''0x10''),
            (''address'', JStr ''0xabc'')]]
     DEFAULT_SAFETY_CONFIG
   = \<lparr> safe = False,
       reason = Some ''Unable to validate block range safety'',
       suggestion = Some ''Specify explicit numeric block ranges'' \<rparr>"
  by (simp add: checkLogQuery_def checkBlockRange_def blockRange_def blockOperand_def toNumber_def
      idx_def Let_def unsafeResult_def parseInt16_def trimStart.simps wsAtStart_def whiteSpace_def
      startsWith_def isDigit_def digitValue_def digitsValue_def)

text \<open>
  C1. The specification asks for an unsafe verdict, with the reason that the range cannot
  be validated, whenever a bound does not parse as an integer. The code returns that
  verdict from the \<^verbatim>\<open>catch\<close> of its range check, under the comment
  \<^verbatim>\<open>If we can't parse, be conservative\<close>; but \<^verbatim>\<open>parseInt\<close> does not throw on a
  string that is no number, it returns NaN. The range is then NaN, the comparison
  \<^verbatim>\<open>range > config.maxBlockRange\<close> is false, and the check goes on as if the range
  had passed: with an address or topics filter present the verdict is
  \<^verbatim>\<open>{ safe: true }\<close>, for every pair of string bounds of which one parses to NaN.
\<close>

theorem checkLogQuery_unparseable_bound:
  assumes "getProp (idx params 0) ''fromBlock'' = JStr s"
    and "getProp (idx params 0) ''toBlock'' = JStr t"
    and "parseInt16 s = NaN \<or> parseInt16 t = NaN"
    and "truthy (getProp (idx params 0) ''address'') \<or> truthy (getProp (idx params 0) ''topics'')"
  shows "checkLogQuery params config = \<lparr> safe = True, reason = None, suggestion = None \<rparr>"
proof -
  have "numSub (parseInt16 t) (parseInt16 s) = NaN"
    using assms(3) by (auto intro: numSub_NaN)
  then have "checkBlockRange (JStr s) (JStr t) config = None"
    by (simp add: checkBlockRange_def blockRange_strings)
  then show ?thesis
    using assms(1,2,4) by (auto simp: checkLogQuery_def Let_def safeResult_def checkBlockRange_def)
qed

theorem checkLogQuery_unparseable_bound_witness:
  "parseInt16 ''xyz'' = NaN
   \<and> checkLogQuery
        [JObj [(''fromBlock'', JStr ''xyz''), (''toBlock'', JStr ''0x10''), (''address'', JStr ''0xabc'')]]
        DEFAULT_SAFETY_CONFIG
      = \<lparr> safe = True, reason = None, suggestion = None \<rparr>"
proof -
  let ?params = "[JObj [(''fromBlock'', JStr ''xyz''), (''toBlock'', JStr ''0x10''), (''address'', JStr ''0xabc'')]]"
  have 1: "getProp (idx ?params 0) ''fromBlock'' = JStr ''xyz''"
    and 2: "getProp (idx ?params 0) ''toBlock'' = JStr ''0x10''"
    and 4: "truthy (getProp (idx ?params 0) ''address'') \<or> truthy (getProp (idx ?params 0) ''topics'')"
    by (simp_all add: idx_def)
  have 3: "parseInt16 ''xyz'' = NaN \<or> parseInt16 ''0x10'' = NaN"
    using parseInt16_xyz by simp
  show ?thesis
    using parseInt16_xyz checkLogQuery_unparseable_bound [OF 1 2 3 4] by simp
qed

text \<open>
  C3, as the specification states it, fails where the filter itself is absent: the code
  returns \<^verbatim>\<open>{ safe: true }\<close> for a missing first parameter, before it looks at
  anything else. And where the range check does not pass, the verdict carries the reason
  of the range check, not that of the unrestricted query.
\<close>

theorem checkLogQuery_unrestricted_counterexample:
  "getProp (idx [] 0) ''address'' = JUndefined
   \<and> getProp (idx [] 0) ''topics'' = JUndefined
   \<and> checkLogQuery [] DEFAULT_SAFETY_CONFIG = \<lparr> safe = True, reason = None, suggestion = None \<rparr>
   \<and> checkLogQuery [JObj [(''fromBlock'', JNum (Num 1)), (''toBlock'', JNum (Num 100))]]
         DEFAULT_SAFETY_CONFIG
       = \<lparr> safe = False,
           reason = Some ''Block range 99 exceeds maximum 10'',
           suggestion = Some ''Reduce the block range or use pagination'' \<rparr>"
  by (simp add: idx_def checkLogQuery_def checkBlockRange_def blockRange_numbers Let_def
      DEFAULT_SAFETY_CONFIG_def numToString_def showInt_def showNat.simps
      safeResult_def unsafeResult_def)

text \<open>
  C3, amended. For every parameter list whose first element is truthy and whose
  \<^verbatim>\<open>address\<close> and \<^verbatim>\<open>topics\<close> are both falsy (absent, \<^verbatim>\<open>null\<close>, an empty
  string; an empty array is truthy and counts as a filter), the verdict is unsafe: a range
  check that does not pass returns an unsafe verdict of its own, and otherwise the verdict
  carries the reason of the unrestricted query and the suggestion to add filters. That is
  the verdict whenever the range check was skipped (a bound is falsy, or \<^verbatim>\<open>toBlock\<close>
  is \<^verbatim>\<open>'latest'\<close>), and whenever it passed on bounds that are numbers or strings
  within the exact arithmetic (NaN, or integers of magnitude below \<open>2 ^ 53\<close>, the range
  as well) with the range not above the ceiling. When the first element is falsy, the
  verdict is \<^verbatim>\<open>{ safe: true }\<close>.
\<close>

theorem checkLogQuery_unrestricted:
  assumes "\<not> truthy (getProp (idx params 0) ''address'')"
    and "\<not> truthy (getProp (idx params 0) ''topics'')"
  shows "(let filter = idx params 0;
              fromBlock = getProp filter ''fromBlock'';
              toBlock = getProp filter ''toBlock'';
              skipped = (\<not> truthy fromBlock \<or> \<not> truthy toBlock \<or> toBlock = JStr ''latest'');
              passed = (exactBound fromBlock \<and> exactBound toBlock
                        \<and> (\<exists>r. blockRange fromBlock toBlock = Inr r \<and> exactNumber r
                                 \<and> \<not> numGreater r (maxBlockRange config)))
          in (truthy filter \<longrightarrow> safe (checkLogQuery params config) = False)
           \<and> (truthy filter \<and> (skipped \<or> passed) \<longrightarrow>
                checkLogQuery params config
                  = \<lparr> safe = False,
                      reason = Some ''Unrestricted log queries can return massive amounts of data'',
                      suggestion = Some ''Add address or topic filters to limit results'' \<rparr>)
           \<and> (\<not> truthy filter \<longrightarrow>
                checkLogQuery params config = \<lparr> safe = True, reason = None, suggestion = None \<rparr>))"
  using assms
  by (auto simp: checkLogQuery_def Let_def checkBlockRange_def unsafeResult_def safeResult_def
      split: sum.splits)

theorem checkLogQuery_unrestricted_witness:
  "checkLogQuery [JObj [(''fromBlock'', JNum (Num 100)), (''toBlock'', JStr ''latest'')]] DEFAULT_SAFETY_CONFIG
     = \<lparr> safe = False,
         reason = Some ''Unrestricted log queries can return massive amounts of data'',
         suggestion = Some ''Add address or topic filters to limit results'' \<rparr>
   \<and> checkLogQuery [JObj [(''fromBlock'', JNum (Num 100)), (''toBlock'', JNum (Num 105))]] DEFAULT_SAFETY_CONFIG
     = \<lparr> safe = False,
         reason = Some ''Unrestricted log queries can return massive amounts of data'',
         suggestion = Some ''Add address or topic filters to limit results'' \<rparr>
   \<and> safe (checkLogQuery [JObj [(''fromBlock'', JNum (Num 1)), (''toBlock'', JNum (Num 100))]]
             DEFAULT_SAFETY_CONFIG) = False
   \<and> checkLogQuery [JNull] DEFAULT_SAFETY_CONFIG = \<lparr> safe = True, reason = None, suggestion = None \<rparr>"
proof -
  let ?a = "[JObj [(''fromBlock'', JNum (Num 100)), (''toBlock'', JStr ''latest'')]]"
  let ?b = "[JObj [(''fromBlock'', JNum (Num 100)), (''toBlock'', JNum (Num 105))]]"
  let ?c = "[JNull]"
  let ?d = "[JObj [(''fromBlock'', JNum (Num 1)), (''toBlock'', JNum (Num 100))]]"
  have a: "\<not> truthy (getProp (idx ?a 0) ''address'')" "\<not> truthy (getProp (idx ?a 0) ''topics'')"
    and b: "\<not> truthy (getProp (idx ?b 0) ''address'')" "\<not> truthy (getProp (idx ?b 0) ''topics'')"
    and c: "\<not> truthy (getProp (idx ?c 0) ''address'')" "\<not> truthy (getProp (idx ?c 0) ''topics'')"
    and d: "\<not> truthy (getProp (idx ?d 0) ''address'')" "\<not> truthy (getProp (idx ?d 0) ''topics'')"
    by (simp_all add: idx_def)
  show ?thesis
    using checkLogQuery_unrestricted [OF a, of DEFAULT_SAFETY_CONFIG]
      checkLogQuery_unrestricted [OF b, of DEFAULT_SAFETY_CONFIG]
      checkLogQuery_unrestricted [OF c, of DEFAULT_SAFETY_CONFIG]
      checkLogQuery_unrestricted [OF d, of DEFAULT_SAFETY_CONFIG]
    by (simp add: Let_def idx_def blockRange_numbers exactBound_def exactNumber_def
        DEFAULT_SAFETY_CONFIG_def)
qed

text \<open>Reading hexadecimal digits: what \<^verbatim>\<open>parseInt(s, 16)\<close> computes on them.\<close>

lemma hexValue_Nil: "hexValue [] = 0"
  by (simp add: hexValue.simps)

lemma hexValue_snoc: "hexValue (z @ [c]) = 16 * hexValue z + hexDigit c"
  by (subst hexValue.simps) simp

lemma hexDigits_digitValue:
  "c \<in> set hexDigits \<Longrightarrow> digitValue 16 c = Some (hexDigit c)"
  by (auto simp: hexDigits_def hexDigit_def digitValue_def Let_def)

lemma hexDigits_isDigit: "set z \<subseteq> set hexDigits \<Longrightarrow> list_all (isDigit 16) z"
  using hexDigits_digitValue by (auto simp: list_all_iff isDigit_def)

lemma digitsValue_hexValue: "set z \<subseteq> set hexDigits \<Longrightarrow> digitsValue 16 z = hexValue z"
proof (induction z rule: rev_induct)
  case Nil
  then show ?case by (simp add: digitsValue_def hexValue_Nil)
next
  case (snoc c z)
  then have "digitsValue 16 z = hexValue z" and "digitValue 16 c = Some (hexDigit c)"
    by (simp_all add: hexDigits_digitValue)
  then show ?case
    by (simp add: digitsValue_def hexValue_snoc)
qed

lemma digit_code: "isDigit 16 c \<Longrightarrow> 48 \<le> (of_char c :: nat) \<and> (of_char c :: nat) \<le> 102"
  by (simp add: isDigit_def digitValue_def Let_def split: if_splits)

lemma digit_not_white:
  assumes "isDigit 16 c"
  shows "wsAtStart (c # r) = 0"
proof -
  have "\<not> startsWith (c # r) w" if "w \<in> set whiteSpace" for w
    using that digit_code [OF assms] by (auto simp: whiteSpace_def startsWith_def)
  then have "find (startsWith (c # r)) whiteSpace = None"
    by (simp add: find_None_iff)
  then show ?thesis
    by (simp add: wsAtStart_def)
qed

lemma not_digits:
  "\<not> isDigit 16 (CHR ''+'')" "\<not> isDigit 16 (CHR ''-'')" "\<not> isDigit 16 (CHR ''x'')"
  "\<not> isDigit 16 (CHR ''X'')" "\<not> isDigit 16 (CHR ''l'')"
  by (simp_all add: isDigit_def digitValue_def Let_def)

lemma digit_not_sign:
  "isDigit 16 c \<Longrightarrow>
     c \<noteq> CHR ''+'' \<and> c \<noteq> CHR ''-'' \<and> c \<noteq> CHR ''x'' \<and> c \<noteq> CHR ''X'' \<and> c \<noteq> CHR ''l''"
  using not_digits by blast

lemma zero_digit: "isDigit 16 (CHR ''0'')"
  by (simp add: isDigit_def digitValue_def Let_def)

lemma trimStart_digit: "isDigit 16 c \<Longrightarrow> trimStart (c # r) = c # r"
  by (subst trimStart.simps) (simp add: digit_not_white)

lemma parseInt16_digits:
  assumes "z \<noteq> []" and "set z \<subseteq> set hexDigits"
  shows "parseInt16 z = Num (hexValue z)"
proof -
  have digits: "list_all (isDigit 16) z"
    using assms(2) by (rule hexDigits_isDigit)
  obtain c r where z: "z = c # r"
    using assms(1) by (cases z) auto
  have c: "isDigit 16 c"
    using digits z by simp
  have nox: "\<not> startsWith z ''0x'' \<and> \<not> startsWith z ''0X''"
  proof (cases r)
    case Nil
    then show ?thesis using z by (simp add: startsWith_def)
  next
    case (Cons d r')
    then have "isDigit 16 d" using digits z by simp
    then show ?thesis using z Cons digit_not_sign [of d] by (simp add: startsWith_def)
  qed
  have nosign: "\<not> startsWith z ''+'' \<and> \<not> startsWith z ''-''"
    using z digit_not_sign [OF c] by (simp add: startsWith_def)
  have tw: "takeWhile (isDigit 16) z = z"
    using digits by (simp add: takeWhile_eq_all_conv list_all_iff)
  have "trimStart z = z"
    using z c by (simp add: trimStart_digit)
  then show ?thesis
    using nox nosign assms by (simp add: parseInt16_def Let_def digitsValue_hexValue tw)
qed

lemma parseInt16_prefixed:
  assumes "z \<noteq> []" and "set z \<subseteq> set hexDigits" and "p = ''0x'' \<or> p = ''0X''"
  shows "parseInt16 (p @ z) = Num (hexValue z)"
proof -
  have digits: "list_all (isDigit 16) z"
    using assms(2) by (rule hexDigits_isDigit)
  have tw: "takeWhile (isDigit 16) z = z"
    using digits by (simp add: takeWhile_eq_all_conv list_all_iff)
  have "trimStart (p @ z) = p @ z"
    using assms(3) trimStart_digit [OF zero_digit] by auto
  moreover have "startsWith (p @ z) ''0x'' \<or> startsWith (p @ z) ''0X''"
    and "\<not> startsWith (p @ z) ''+''" and "\<not> startsWith (p @ z) ''-''" and "drop 2 (p @ z) = z"
    using assms(3) by (auto simp: startsWith_def)
  ultimately show ?thesis
    using assms(1,2) by (simp add: parseInt16_def Let_def digitsValue_hexValue tw)
qed

lemma parseInt16_hex:
  assumes "z \<noteq> []" and "set z \<subseteq> set hexDigits" and "p = [] \<or> p = ''0x'' \<or> p = ''0X''"
  shows "parseInt16 (p @ z) = Num (hexValue z)"
  using assms parseInt16_digits parseInt16_prefixed by (cases "p = []") auto

lemma hex_not_latest:
  assumes "z \<noteq> []" and "set z \<subseteq> set hexDigits" and "p = [] \<or> p = ''0x'' \<or> p = ''0X''"
  shows "p @ z \<noteq> ''latest''"
proof
  assume eq: "p @ z = ''latest''"
  from assms(3) show False
  proof (elim disjE)
    assume "p = []"
    with eq have "z = ''latest''" by simp
    with assms(2) show False by (simp add: hexDigits_def)
  next
    assume "p = ''0x''" with eq show False by simp
  next
    assume "p = ''0X''" with eq show False by simp
  qed
qed

lemma showInt_examples: "showInt 10 = ''10''" "showInt 16 = ''16''" "showInt 15 = ''15''" "showInt 26 = ''26''"
  by (simp_all add: showInt_def showNat.simps)

text \<open>
  C4, as the specification states it, fails on decimal strings: a string bound is always
  read in radix 16, so \<^verbatim>\<open>'15'\<close> is 21 and the range from \<^verbatim>\<open>'5'\<close> to \<^verbatim>\<open>'15'\<close> is
  16, which the default ceiling of 10 rejects, while the numbers 5 and 15 give the range
  10, which passes.
\<close>

theorem checkLogQuery_decimal_strings_counterexample:
  "checkLogQuery
     [JObj [(''fromBlock'', JStr ''5''), (''toBlock'', JStr ''15''), (''address'', JStr ''0xabc'')]]
     DEFAULT_SAFETY_CONFIG
     = \<lparr> safe = False,
         reason = Some ''Block range 16 exceeds maximum 10'',
         suggestion = Some ''Reduce the block range or use pagination'' \<rparr>
   \<and> checkLogQuery
     [JObj [(''fromBlock'', JNum (Num 5)), (''toBlock'', JNum (Num 15)), (''address'', JStr ''0xabc'')]]
     DEFAULT_SAFETY_CONFIG
     = \<lparr> safe = True, reason = None, suggestion = None \<rparr>"
proof -
  have "parseInt16 ''5'' = Num 5" and "parseInt16 ''15'' = Num 21"
    by (simp_all add: parseInt16_def trimStart.simps wsAtStart_def whiteSpace_def startsWith_def
        isDigit_def digitValue_def digitsValue_def Let_def)
  then have "blockRange (JStr ''5'') (JStr ''15'') = Inr (Num 16)"
    by (simp add: blockRange_strings)
  then show ?thesis
    by (simp add: checkLogQuery_def checkBlockRange_def idx_def Let_def blockRange_numbers
        DEFAULT_SAFETY_CONFIG_def numToString_def showInt_examples unsafeResult_def safeResult_def)
qed

text \<open>
  C4, amended. A string bound is read as a hexadecimal integer, with or without the
  prefix \<^verbatim>\<open>0x\<close> or \<^verbatim>\<open>0X\<close>: a non-empty string of hexadecimal digits that denotes
  an integer below \<open>2 ^ 53\<close> in radix 16 parses to that integer (so a string of decimal
  digits is read in radix 16 as well; from \<open>2 ^ 53\<close> on, \<^verbatim>\<open>parseInt\<close> rounds to a
  double). The range is \<^verbatim>\<open>to\<close> minus \<^verbatim>\<open>from\<close>, and with an address or topics
  filter present and a ceiling of magnitude below \<open>2 ^ 53\<close> the verdict is unsafe exactly
  when that range is above the ceiling.
\<close>

theorem checkLogQuery_hex_strings:
  assumes "getProp (idx params 0) ''fromBlock'' = JStr (p @ za)"
    and "getProp (idx params 0) ''toBlock'' = JStr (q @ zb)"
    and "za \<noteq> [] \<and> set za \<subseteq> set hexDigits \<and> (p = [] \<or> p = ''0x'' \<or> p = ''0X'')"
    and "zb \<noteq> [] \<and> set zb \<subseteq> set hexDigits \<and> (q = [] \<or> q = ''0x'' \<or> q = ''0X'')"
    and "hexValue za < 2 ^ 53 \<and> hexValue zb < 2 ^ 53 \<and> \<bar>maxBlockRange config\<bar> < 2 ^ 53"
    and "truthy (getProp (idx params 0) ''address'') \<or> truthy (getProp (idx params 0) ''topics'')"
  shows "parseInt16 (p @ za) = Num (hexValue za) \<and> parseInt16 (q @ zb) = Num (hexValue zb)
         \<and> checkLogQuery params config =
            (if maxBlockRange config < hexValue zb - hexValue za then
               \<lparr> safe = False,
                 reason = Some (''Block range '' @ showInt (hexValue zb - hexValue za)
                                @ '' exceeds maximum '' @ showInt (maxBlockRange config)),
                 suggestion = Some ''Reduce the block range or use pagination'' \<rparr>
             else \<lparr> safe = True, reason = None, suggestion = None \<rparr>)"
proof -
  have a: "parseInt16 (p @ za) = Num (hexValue za)"
    using assms(3) by (simp add: parseInt16_hex)
  have b: "parseInt16 (q @ zb) = Num (hexValue zb)"
    using assms(4) by (simp add: parseInt16_hex)
  have nl: "q @ zb \<noteq> ''latest''"
    using assms(4) by (simp add: hex_not_latest)
  have f: "truthy (idx params 0)"
    using assms(1) by (cases "idx params 0") auto
  have r: "blockRange (JStr (p @ za)) (JStr (q @ zb)) = Inr (Num (hexValue zb - hexValue za))"
    by (simp add: blockRange_def blockOperand_def toNumber_def a b)
  have ne: "p @ za \<noteq> [] \<and> q @ zb \<noteq> []"
    using assms(3,4) by simp
  have "checkBlockRange (JStr (p @ za)) (JStr (q @ zb)) config =
          (if maxBlockRange config < hexValue zb - hexValue za then
             Some (unsafeResult
               (''Block range '' @ showInt (hexValue zb - hexValue za)
                  @ '' exceeds maximum '' @ showInt (maxBlockRange config))
               ''Reduce the block range or use pagination'')
           else None)"
    using nl ne by (simp add: checkBlockRange_def r numToString_def)
  then have "checkLogQuery params config =
          (if maxBlockRange config < hexValue zb - hexValue za then
             unsafeResult
               (''Block range '' @ showInt (hexValue zb - hexValue za)
                  @ '' exceeds maximum '' @ showInt (maxBlockRange config))
               ''Reduce the block range or use pagination''
           else safeResult)"
    using f ne assms(1,2,6) by (auto simp: checkLogQuery_def Let_def)
  then show ?thesis
    using a b by (simp add: unsafeResult_def safeResult_def)
qed

lemma hexValue_examples: "hexValue ''a'' = 10" "hexValue ''24'' = 36" "hexValue ''1F'' = 31"
  by (simp_all add: hexValue.simps hexDigit_def hexDigits_def)

theorem checkLogQuery_hex_strings_witness:
  "parseInt16 ''0xa'' = Num 10 \<and> parseInt16 ''24'' = Num 36 \<and> parseInt16 ''0X1F'' = Num 31
   \<and> checkLogQuery
       [JObj [(''fromBlock'', JStr ''0xa''), (''toBlock'', JStr ''24''), (''address'', JStr ''0xabc'')]]
       DEFAULT_SAFETY_CONFIG
     = \<lparr> safe = False,
         reason = Some ''Block range 26 exceeds maximum 10'',
         suggestion = Some ''Reduce the block range or use pagination'' \<rparr>
   \<and> checkLogQuery
       [JObj [(''fromBlock'', JStr ''24''), (''toBlock'', JStr ''0X1F''), (''topics'', JArr [JStr ''0xddf2''])]]
       DEFAULT_SAFETY_CONFIG
     = \<lparr> safe = True, reason = None, suggestion = None \<rparr>"
proof -
  let ?a = "[JObj [(''fromBlock'', JStr ''0xa''), (''toBlock'', JStr ''24''), (''address'', JStr ''0xabc'')]]"
  let ?b = "[JObj [(''fromBlock'', JStr ''24''), (''toBlock'', JStr ''0X1F''), (''topics'', JArr [JStr ''0xddf2''])]]"
  have d: "''a'' \<noteq> [] \<and> set ''a'' \<subseteq> set hexDigits \<and> (''0x'' = [] \<or> ''0x'' = ''0x'' \<or> ''0x'' = ''0X'')"
    "''24'' \<noteq> [] \<and> set ''24'' \<subseteq> set hexDigits \<and> ([] = [] \<or> [] = ''0x'' \<or> [] = ''0X'')"
    "''1F'' \<noteq> [] \<and> set ''1F'' \<subseteq> set hexDigits \<and> (''0X'' = [] \<or> ''0X'' = ''0x'' \<or> ''0X'' = ''0X'')"
    by (simp_all add: hexDigits_def)
  have e: "hexValue ''a'' < 2 ^ 53 \<and> hexValue ''24'' < 2 ^ 53 \<and> \<bar>maxBlockRange DEFAULT_SAFETY_CONFIG\<bar> < 2 ^ 53"
    "hexValue ''24'' < 2 ^ 53 \<and> hexValue ''1F'' < 2 ^ 53 \<and> \<bar>maxBlockRange DEFAULT_SAFETY_CONFIG\<bar> < 2 ^ 53"
    by (simp_all add: hexValue_examples DEFAULT_SAFETY_CONFIG_def)
  have a: "getProp (idx ?a 0) ''fromBlock'' = JStr (''0x'' @ ''a'')"
    "getProp (idx ?a 0) ''toBlock'' = JStr ([] @ ''24'')"
    "truthy (getProp (idx ?a 0) ''address'') \<or> truthy (getProp (idx ?a 0) ''topics'')"
    and b: "getProp (idx ?b 0) ''fromBlock'' = JStr ([] @ ''24'')"
    "getProp (idx ?b 0) ''toBlock'' = JStr (''0X'' @ ''1F'')"
    "truthy (getProp (idx ?b 0) ''address'') \<or> truthy (getProp (idx ?b 0) ''topics'')"
    by (simp_all add: idx_def)
  show ?thesis
    using checkLogQuery_hex_strings [OF a(1) a(2) d(1) d(2) e(1) a(3)]
      checkLogQuery_hex_strings [OF b(1) b(2) d(2) d(3) e(2) b(3)]
    by (simp add: hexValue_examples showInt_examples DEFAULT_SAFETY_CONFIG_def)
qed

text \<open>
  The range check on two integer bounds, where it is made: both bounds are non-zero
  (zero is falsy), and within the exact arithmetic (the bounds, their difference and the
  ceiling of magnitude below \<open>2 ^ 53\<close>) the verdict is unsafe exactly when \<^verbatim>\<open>to\<close> minus
  \<^verbatim>\<open>from\<close> is above the ceiling; the reason states the range and the ceiling.
\<close>

lemma checkLogQuery_integer_bounds:
  assumes "getProp (idx params 0) ''fromBlock'' = JNum (Num a)"
    and "getProp (idx params 0) ''toBlock'' = JNum (Num b)"
    and "a \<noteq> 0" and "b \<noteq> 0"
    and "truthy (getProp (idx params 0) ''address'') \<or> truthy (getProp (idx params 0) ''topics'')"
    and "\<bar>a\<bar> < 2 ^ 53 \<and> \<bar>b\<bar> < 2 ^ 53 \<and> \<bar>b - a\<bar> < 2 ^ 53 \<and> \<bar>maxBlockRange config\<bar> < 2 ^ 53"
  shows "checkLogQuery params config =
           (if maxBlockRange config < b - a then
              \<lparr> safe = False,
                reason = Some (''Block range '' @ showInt (b - a)
                               @ '' exceeds maximum '' @ showInt (maxBlockRange config)),
                suggestion = Some ''Reduce the block range or use pagination'' \<rparr>
            else \<lparr> safe = True, reason = None, suggestion = None \<rparr>)"
proof -
  have f: "truthy (idx params 0)"
    using assms(1) by (cases "idx params 0") auto
  have "checkBlockRange (JNum (Num a)) (JNum (Num b)) config =
          (if maxBlockRange config < b - a then
             Some (unsafeResult
               (''Block range '' @ showInt (b - a)
                  @ '' exceeds maximum '' @ showInt (maxBlockRange config))
               ''Reduce the block range or use pagination'')
           else None)"
    using assms(3,4) by (simp add: checkBlockRange_def blockRange_numbers numToString_def)
  then show ?thesis
    using f assms(1-5) by (auto simp: checkLogQuery_def Let_def unsafeResult_def safeResult_def)
qed

lemma checkLogQuery_specification_examples:
  "checkLogQuery
     [JObj [(''fromBlock'', JNum (Num 100)), (''toBlock'', JNum (Num 115)), (''address'', JStr ''0xabc'')]]
     (DEFAULT_SAFETY_CONFIG \<lparr> maxBlockRange := 10 \<rparr>)
     = \<lparr> safe = False,
         reason = Some ''Block range 15 exceeds maximum 10'',
         suggestion = Some ''Reduce the block range or use pagination'' \<rparr>"
  "checkLogQuery
     [JObj [(''fromBlock'', JNum (Num 100)), (''toBlock'', JNum (Num 105)), (''address'', JStr ''0xabc'')]]
     (DEFAULT_SAFETY_CONFIG \<lparr> maxBlockRange := 10 \<rparr>)
     = \<lparr> safe = True, reason = None, suggestion = None \<rparr>"
  by (simp_all add: checkLogQuery_def checkBlockRange_def idx_def Let_def blockRange_numbers
      DEFAULT_SAFETY_CONFIG_def numToString_def showInt_examples unsafeResult_def safeResult_def)

text \<open>
  C7. The specification asks, for every filter with integer bounds and an address or
  topics filter, for an unsafe verdict exactly when \<^verbatim>\<open>to\<close> minus \<^verbatim>\<open>from\<close> is above
  the ceiling. The code tests the presence of the bounds by their truthiness
  (\<^verbatim>\<open>fromBlock && toBlock && ...\<close>), and the number 0 is falsy: a filter whose
  \<^verbatim>\<open>fromBlock\<close> is the number 0 skips the range check, and with an address or topics
  filter present the verdict is \<^verbatim>\<open>{ safe: true }\<close>, however far \<^verbatim>\<open>toBlock\<close> is.
\<close>

theorem checkLogQuery_zero_fromBlock:
  assumes "getProp (idx params 0) ''fromBlock'' = JNum (Num 0)"
    and "truthy (getProp (idx params 0) ''address'') \<or> truthy (getProp (idx params 0) ''topics'')"
  shows "checkLogQuery params config = \<lparr> safe = True, reason = None, suggestion = None \<rparr>"
  using assms
  by (auto simp: checkLogQuery_def checkBlockRange_def Let_def safeResult_def)

theorem checkLogQuery_zero_fromBlock_witness:
  "maxBlockRange DEFAULT_SAFETY_CONFIG < 100 - 0
   \<and> checkLogQuery
       [JObj [(''fromBlock'', JNum (Num 0)), (''toBlock'', JNum (Num 100)), (''address'', JStr ''0xabc'')]]
       DEFAULT_SAFETY_CONFIG
     = \<lparr> safe = True, reason = None, suggestion = None \<rparr>"
proof -
  let ?params = "[JObj [(''fromBlock'', JNum (Num 0)), (''toBlock'', JNum (Num 100)), (''address'', JStr ''0xabc'')]]"
  have 1: "getProp (idx ?params 0) ''fromBlock'' = JNum (Num 0)"
    and 2: "truthy (getProp (idx ?params 0) ''address'') \<or> truthy (getProp (idx ?params 0) ''topics'')"
    by (simp_all add: idx_def)
  show ?thesis
    using checkLogQuery_zero_fromBlock [OF 1 2, of DEFAULT_SAFETY_CONFIG]
    by (simp add: DEFAULT_SAFETY_CONFIG_def)
qed

section \<open>The invariant of the verdicts\<close>

lemma verdictInvariant_safeResult: "verdictInvariant safeResult"
  by (simp add: verdictInvariant_def safeResult_def)

lemma verdictInvariant_unsafeResult: "r \<noteq> [] \<Longrightarrow> s \<noteq> [] \<Longrightarrow> verdictInvariant (unsafeResult r s)"
  by (simp add: verdictInvariant_def unsafeResult_def)

lemma verdictInvariant_checkBlockQuery: "verdictInvariant (checkBlockQuery method params config)"
  by (simp add: checkBlockQuery_def Let_def verdictInvariant_safeResult verdictInvariant_unsafeResult)

lemma verdictInvariant_checkBlockRange:
  "checkBlockRange fromBlock toBlock config = Some v \<Longrightarrow> verdictInvariant v"
  by (auto simp: checkBlockRange_def verdictInvariant_unsafeResult split: if_splits sum.splits)

lemma verdictInvariant_checkLogQuery: "verdictInvariant (checkLogQuery params config)"
  by (auto simp: checkLogQuery_def Let_def verdictInvariant_safeResult verdictInvariant_unsafeResult
      verdictInvariant_checkBlockRange split: option.splits)

lemma verdictInvariant_validateRPCCall:
  "verdictInvariant (validateRPCCall blockchain method params config)"
  by (simp add: validateRPCCall_def verdictInvariant_safeResult verdictInvariant_unsafeResult
      verdictInvariant_checkBlockQuery verdictInvariant_checkLogQuery)

lemma verdictInvariant_validateNaturalLanguageQuery:
  "verdictInvariant (validateNaturalLanguageQuery query config)"
  by (simp add: validateNaturalLanguageQuery_def checkPatterns_cases
      verdictInvariant_safeResult verdictInvariant_unsafeResult)

text \<open>
  C9. Every verdict that \<^verbatim>\<open>validateRPCCall\<close>, \<^verbatim>\<open>checkBlockQuery\<close>,
  \<^verbatim>\<open>checkLogQuery\<close> and \<^verbatim>\<open>validateNaturalLanguageQuery\<close> return, for every input
  and configuration, satisfies the invariant: an unsafe verdict has a reason and a
  suggestion, both non-empty, and a safe verdict has neither.
\<close>

theorem verdicts_well_formed:
  "verdictInvariant (validateRPCCall blockchain method params config)
   \<and> verdictInvariant (checkBlockQuery method params config)
   \<and> verdictInvariant (checkLogQuery params config)
   \<and> verdictInvariant (validateNaturalLanguageQuery query config)"
  by (simp add: verdictInvariant_validateRPCCall verdictInvariant_checkBlockQuery
      verdictInvariant_checkLogQuery verdictInvariant_validateNaturalLanguageQuery)

theorem verdicts_well_formed_witness:
  "(let v = validateRPCCall ''ethereum'' ''eth_getLogs'' [JObj [(''fromBlock'', JStr ''0x1'')]] DEFAULT_SAFETY_CONFIG
    in safe v = False
       \<and> (\<exists>r s. reason v = Some r \<and> r \<noteq> [] \<and> suggestion v = Some s \<and> s \<noteq> []))
   \<and> (let v = checkBlockQuery ''eth_getLogs'' [JObj [(''fromBlock'', JStr ''0x1'')]] DEFAULT_SAFETY_CONFIG
      in safe v = True \<and> reason v = None \<and> suggestion v = None)"
proof -
  have 1: "safe (validateRPCCall ''ethereum'' ''eth_getLogs'' [JObj [(''fromBlock'', JStr ''0x1'')]]
                   DEFAULT_SAFETY_CONFIG) = False"
    by (simp add: validateRPCCall_def isDangerousMethod_def DANGEROUS_METHODS_def startsWith_def
        checkLogQuery_def checkBlockRange_def idx_def Let_def unsafeResult_def)
  have 2: "safe (checkBlockQuery ''eth_getLogs'' [JObj [(''fromBlock'', JStr ''0x1'')]]
                   DEFAULT_SAFETY_CONFIG) = True"
    by (simp add: checkBlockQuery_def safeResult_def)
  show ?thesis
    using 1 2
      verdicts_well_formed [of "''ethereum''" "''eth_getLogs''" "[JObj [(''fromBlock'', JStr ''0x1'')]]"
        DEFAULT_SAFETY_CONFIG "[]"]
    unfolding verdictInvariant_def Let_def by blast
qed

end
